theory Spec2Isabelle
  imports Main
begin

section \<open>Data model (database.py)\<close>

text \<open>
  \<^verbatim>\<open>BookingStatus\<close> is the enum of database.py; the \<^verbatim>\<open>status\<close> column only ever
  receives the \<^verbatim>\<open>.value\<close> of one of its five members.
\<close>

datatype booking_status = PENDING | CONFIRMED | CANCELLED | REJECTED | EXPIRED

text \<open>
  \<^verbatim>\<open>booking_time\<close> is a DateTime column on SQLite, where the value is stored as text. A
  row holds NULL, a text the column type turns into a datetime when the row is loaded
  (\<open>Stamp\<close>), or a text it cannot turn into one (\<open>Text\<close>). A datetime is an integer number of
  microseconds; Python's range limit on datetime is not modelled. The string handling of
  \<^verbatim>\<open>_as_utc_datetime\<close> and of the confirm handler is kept as the source has it, with the
  Python library functions it calls as parameters.
\<close>

datatype stored_time = NoTime | Stamp int | Text string

text \<open>
  The columns of \<^verbatim>\<open>Trip\<close> and \<^verbatim>\<open>Booking\<close> that the reservation code reads or writes.
  Route, price, name, rating and message-id columns take no part in it and are left out.
  The source has no column for the capacity at creation: \<^verbatim>\<open>seats_available\<close> is the only
  seat count of a trip.
\<close>

record trip =
  driver_id :: int
  date :: int
  seats_available :: int
  is_active :: bool

record booking =
  booking_id :: int
  trip_id :: int
  passenger_id :: int
  seats_booked :: int
  booking_time :: stored_time
  status :: booking_status

text \<open>
  The two tables. Trips are keyed by their primary key; bookings are the rows of the table
  in rowid order, which is the order \<^verbatim>\<open>.all()\<close> and \<^verbatim>\<open>.first()\<close> see.
\<close>

record database =
  trips :: "int \<rightharpoonup> trip"
  bookings :: "booking list"

text \<open>The primary key of \<^verbatim>\<open>bookings\<close> is unique.\<close>

definition wf_db :: "database \<Rightarrow> bool" where
  "wf_db db \<longleftrightarrow> distinct (map booking_id (bookings db))"

text \<open>\<^verbatim>\<open>session.query(Booking).get(booking_id)\<close>\<close>

definition get_booking :: "database \<Rightarrow> int \<Rightarrow> booking option" where
  "get_booking db bid = find (\<lambda>b. booking_id b = bid) (bookings db)"

text \<open>\<^verbatim>\<open>booking.trip\<close>: the relationship through the foreign key; None when no such trip.\<close>

definition booking_trip :: "database \<Rightarrow> booking \<Rightarrow> trip option" where
  "booking_trip db b = trips db (trip_id b)"

text \<open>\<^verbatim>\<open>booking.status = s\<close> on the row with that primary key, then commit.\<close>

definition set_status :: "int \<Rightarrow> booking_status \<Rightarrow> database \<Rightarrow> database" where
  "set_status bid s db =
     db\<lparr>bookings := map (\<lambda>b. if booking_id b = bid then b\<lparr>status := s\<rparr> else b) (bookings db)\<rparr>"

text \<open>\<^verbatim>\<open>trip.seats_available += n\<close> on the trip row \<^verbatim>\<open>tid\<close>.\<close>

definition add_seats :: "int \<Rightarrow> int \<Rightarrow> database \<Rightarrow> database" where
  "add_seats tid n db =
     (case trips db tid of
        None \<Rightarrow> db
      | Some t \<Rightarrow> db\<lparr>trips := (trips db)(tid \<mapsto> t\<lparr>seats_available := seats_available t + n\<rparr>)\<rparr>)"

text \<open>\<^verbatim>\<open>Booking.status.in_([PENDING, CONFIRMED])\<close>: the bookings that hold seats.\<close>

definition active :: "booking_status \<Rightarrow> bool" where
  "active s \<longleftrightarrow> s = PENDING \<or> s = CONFIRMED"

section \<open>Collaborators: notifier, replies, clock, configuration\<close>

text \<open>
  One constructor per notification function of booking_module.py and handlers.py, with the
  chat it goes to and the booking it is about.
\<close>

datatype notification =
    DriverNewBooking int int int
  | PassengerConfirmed int int
  | PassengerRejected int int
  | PassengerExpired int int
  | DriverBookingCancelled int int
  | PassengerTripCancelled int int

text \<open>What the handler answers to the caller (the alert or the edited card).\<close>

datatype reply =
    TripUnavailable | OwnTrip | TripInPast | SeatCountUnavailable | AlreadyBooked
  | BookingRequested int
  | BookingNotFound | AlreadyExpired | ExpiredCannotConfirm | BookingConfirmed
  | BookingRejected | AlreadyCancelled | BookingCancelled | PassengerBookingCancelled
  | NotYourTrip | TripDeleted | TripCancelled
  | TripAlreadyPast | HasConfirmedBookings | SeatsUpdated
  | NotYourBooking | ExitDone | ExitCancelled
  | ErrorOccurred | NoAnswer

datatype error = AttributeError | ValueError

text \<open>
  What a handler leaves behind: the committed database, its answer, and the notifications
  it attempted, in order.
\<close>

record outcome =
  new_db :: database
  answer :: reply
  sent :: "notification list"

text \<open>
  The surroundings of one call: the configured TTL (config.py), the two clocks, the Python
  library functions the timestamp parsing calls (None where they raise), and whether the
  Telegram bot delivers a given notification (False: \<^verbatim>\<open>send_message\<close> raises).
\<close>

record env =
  ttl_setting :: int
  utcnow :: int
  now :: int
  py_strip :: "string \<Rightarrow> string"
  fromisoformat :: "string \<Rightarrow> int option"
  strptime :: "string \<Rightarrow> string \<Rightarrow> int option"
  delivers :: "notification \<Rightarrow> bool"

section \<open>Timestamps and the TTL\<close>

text \<open>\<^verbatim>\<open>int(PENDING_BOOKING_TTL_MINUTES or 15)\<close>: a configured 0 is falsy and gives 15.\<close>

definition ttl_minutes :: "env \<Rightarrow> int" where
  "ttl_minutes e = (if ttl_setting e = 0 then 15 else ttl_setting e)"

text \<open>\<^verbatim>\<open>timedelta(minutes=m)\<close> in microseconds.\<close>

definition timedelta_minutes :: "int \<Rightarrow> int" where
  "timedelta_minutes m = m * 60000000"

text \<open>
  \<^verbatim>\<open>_as_utc_datetime\<close> (booking_module.py): None stays None, a datetime is returned as it
  is, a string is stripped and, unless empty, tried as ISO and then against the two SQLite
  formats; anything else is None.
\<close>

definition as_utc_datetime :: "env \<Rightarrow> stored_time \<Rightarrow> int option" where
  "as_utc_datetime e v =
     (case v of
        NoTime \<Rightarrow> None
      | Stamp t \<Rightarrow> Some t
      | Text raw \<Rightarrow>
          (let s = py_strip e raw in
           if s = [] then None
           else (case fromisoformat e s of
                   Some t \<Rightarrow> Some t
                 | None \<Rightarrow>
                     (case strptime e s ''%Y-%m-%d %H:%M:%S'' of
                        Some t \<Rightarrow> Some t
                      | None \<Rightarrow>
                          (case strptime e s ''%Y-%m-%d %H:%M:%S.%f'' of
                             Some t \<Rightarrow> Some t
                           | None \<Rightarrow> None)))))"

text \<open>
  The confirm handler parses \<^verbatim>\<open>booking_time\<close> inline (handlers.py): the same chain, without
  the test for the empty string.
\<close>

definition confirm_parse_time :: "env \<Rightarrow> stored_time \<Rightarrow> int option" where
  "confirm_parse_time e v =
     (case v of
        NoTime \<Rightarrow> None
      | Stamp t \<Rightarrow> Some t
      | Text raw \<Rightarrow>
          (let s = py_strip e raw in
           case fromisoformat e s of
             Some t \<Rightarrow> Some t
           | None \<Rightarrow>
               (case strptime e s ''%Y-%m-%d %H:%M:%S'' of
                  Some t \<Rightarrow> Some t
                | None \<Rightarrow> strptime e s ''%Y-%m-%d %H:%M:%S.%f'')))"

section \<open>Creating a booking (booking_module.py, \<^verbatim>\<open>handle_callback\<close>)\<close>

text \<open>SQLite gives a new row the largest rowid plus one.\<close>

definition next_booking_id :: "database \<Rightarrow> int" where
  "next_booking_id db = foldr max (map booking_id (bookings db)) 0 + 1"

text \<open>The query for an active booking of this passenger on this trip, \<^verbatim>\<open>.first()\<close>.\<close>

definition existing_booking :: "database \<Rightarrow> int \<Rightarrow> int \<Rightarrow> booking option" where
  "existing_booking db tid pid =
     find (\<lambda>b. trip_id b = tid \<and> passenger_id b = pid \<and> active (status b)) (bookings db)"

text \<open>
  \<^verbatim>\<open>book_qty_{trip_id}_{seats}\<close>, after the two integers are parsed. The checks are in the
  source's order; each rejection returns before anything is written.
\<close>

definition handle_callback :: "env \<Rightarrow> int \<Rightarrow> int \<Rightarrow> int \<Rightarrow> database \<Rightarrow> outcome" where
  "handle_callback e actor tid seats_requested db =
     (case trips db tid of
        None \<Rightarrow> \<lparr>new_db = db, answer = TripUnavailable, sent = []\<rparr>
      | Some t \<Rightarrow>
          if \<not> is_active t \<or> seats_available t \<le> 0
          then \<lparr>new_db = db, answer = TripUnavailable, sent = []\<rparr>
          else if driver_id t = actor
          then \<lparr>new_db = db, answer = OwnTrip, sent = []\<rparr>
          else if date t < now e
          then \<lparr>new_db = db, answer = TripInPast, sent = []\<rparr>
          else if seats_requested < 1 \<or> seats_requested > seats_available t
          then \<lparr>new_db = db, answer = SeatCountUnavailable, sent = []\<rparr>
          else if existing_booking db tid actor \<noteq> None
          then \<lparr>new_db = db, answer = AlreadyBooked, sent = []\<rparr>
          else
            (let bid = next_booking_id db;
                 new_booking = \<lparr>booking_id = bid, trip_id = tid, passenger_id = actor,
                                seats_booked = seats_requested,
                                booking_time = Stamp (utcnow e), status = PENDING\<rparr>
             in \<lparr>new_db = db\<lparr>trips := (trips db)(tid \<mapsto>
                                t\<lparr>seats_available := seats_available t - seats_requested\<rparr>),
                              bookings := bookings db @ [new_booking]\<rparr>,
                  answer = BookingRequested bid,
                  sent = [DriverNewBooking (driver_id t) bid seats_requested]\<rparr>))"

text \<open>
  The seat quantity keyboard of the \<^verbatim>\<open>book_\<close> branch (handlers.py):
  \<^verbatim>\<open>max_btn = min(5, int(trip.seats_available))\<close>, one button for each of
  \<^verbatim>\<open>range(1, max_btn + 1)\<close>.
\<close>

definition seat_quantity_buttons :: "int \<Rightarrow> int list" where
  "seat_quantity_buttons avail = [1..min 5 avail]"

section \<open>Driver confirms or rejects (handlers.py)\<close>

text \<open>
  \<^verbatim>\<open>confirm_booking_\<close>. The handler never compares the caller with the trip's driver. A
  PENDING booking older than the TTL is expired on the spot; the seats go back when the
  booking has a trip.
\<close>

definition confirm_booking :: "env \<Rightarrow> int \<Rightarrow> int \<Rightarrow> database \<Rightarrow> outcome" where
  "confirm_booking e actor bid db =
     (case get_booking db bid of
        None \<Rightarrow> \<lparr>new_db = db, answer = BookingNotFound, sent = []\<rparr>
      | Some b \<Rightarrow>
          if status b = EXPIRED
          then \<lparr>new_db = db, answer = AlreadyExpired, sent = []\<rparr>
          else if status b = PENDING
          then
            (let is_expired =
                   (case confirm_parse_time e (booking_time b) of
                      None \<Rightarrow> False
                    | Some bt \<Rightarrow> bt < utcnow e - timedelta_minutes (ttl_minutes e))
             in if is_expired
                then \<lparr>new_db = set_status bid EXPIRED
                                 (add_seats (trip_id b) (seats_booked b) db),
                      answer = ExpiredCannotConfirm,
                      sent = [PassengerExpired (passenger_id b) bid]\<rparr>
                else \<lparr>new_db = set_status bid CONFIRMED db,
                      answer = BookingConfirmed,
                      sent = [PassengerConfirmed (passenger_id b) bid]\<rparr>)
          else \<lparr>new_db = db, answer = NoAnswer, sent = []\<rparr>)"

text \<open>
  \<^verbatim>\<open>reject_booking_\<close>: one test, \<^verbatim>\<open>booking and booking.status == PENDING\<close>; no look at the
  caller and none at the clock. \<^verbatim>\<open>trip.seats_available\<close> raises when the trip is gone.
\<close>

definition reject_booking :: "env \<Rightarrow> int \<Rightarrow> int \<Rightarrow> database \<Rightarrow> error + outcome" where
  "reject_booking e actor bid db =
     (case get_booking db bid of
        None \<Rightarrow> Inr \<lparr>new_db = db, answer = NoAnswer, sent = []\<rparr>
      | Some b \<Rightarrow>
          if status b = PENDING
          then (case booking_trip db b of
                  None \<Rightarrow> Inl AttributeError
                | Some t \<Rightarrow>
                    Inr \<lparr>new_db = set_status bid REJECTED
                                    (add_seats (trip_id b) (seats_booked b) db),
                         answer = BookingRejected,
                         sent = [PassengerRejected (passenger_id b) bid]\<rparr>)
          else Inr \<lparr>new_db = db, answer = NoAnswer, sent = []\<rparr>)"

section \<open>Passenger confirms the cancellation (handlers.py, \<^verbatim>\<open>confirm_cancel_\<close>)\<close>

text \<open>
  The status of the fetched row is read first, so a missing row raises AttributeError before
  the \<^verbatim>\<open>if booking and ...\<close> test is reached. \<^verbatim>\<open>trip.seats_available\<close> raises the same way
  when the booking has no trip. Both happen before any write.
\<close>

definition confirm_cancel :: "env \<Rightarrow> int \<Rightarrow> int \<Rightarrow> database \<Rightarrow> error + outcome" where
  "confirm_cancel e actor bid db =
     (case get_booking db bid of
        None \<Rightarrow> Inl AttributeError
      | Some b \<Rightarrow>
          if status b = CANCELLED \<or> status b = REJECTED \<or> status b = EXPIRED
          then Inr \<lparr>new_db = db, answer = AlreadyCancelled, sent = []\<rparr>
          else if passenger_id b = actor
          then (case booking_trip db b of
                  None \<Rightarrow> Inl AttributeError
                | Some t \<Rightarrow>
                    Inr \<lparr>new_db = set_status bid CANCELLED (add_seats (trip_id b) (seats_booked b) db),
                         answer = BookingCancelled,
                         sent = [DriverBookingCancelled (driver_id t) bid]\<rparr>)
          else Inr \<lparr>new_db = db, answer = NoAnswer, sent = []\<rparr>)"

text \<open>
  \<^verbatim>\<open>button_callback\<close> wraps its branches in one try/except: an exception is logged, the
  caller gets the generic error alert, and the session closes without a commit.
\<close>

definition guarded :: "database \<Rightarrow> error + outcome \<Rightarrow> outcome" where
  "guarded db r =
     (case r of
        Inl err \<Rightarrow> \<lparr>new_db = db, answer = ErrorOccurred, sent = []\<rparr>
      | Inr out \<Rightarrow> out)"

section \<open>The passenger's other two cancellations (handlers.py)\<close>

text \<open>
  The typed confirmation in \<^verbatim>\<open>handle_message\<close>: the branch taken when \<^verbatim>\<open>user_data\<close> holds
  \<^verbatim>\<open>cancelling_booking_id\<close> and the text is one of the words for yes. The key is set by the
  \<^verbatim>\<open>cancel_booking_\<close> button and is not cleared by the \<^verbatim>\<open>confirm_cancel_\<close> button. There is
  no test of the booking's status here. The branch has a try/except of its own: the
  AttributeError of a booking without a trip is answered with an error message.
\<close>

definition handle_message_cancel_yes :: "env \<Rightarrow> int \<Rightarrow> int \<Rightarrow> database \<Rightarrow> outcome" where
  "handle_message_cancel_yes e actor bid db =
     (case get_booking db bid of
        None \<Rightarrow> \<lparr>new_db = db, answer = NoAnswer, sent = []\<rparr>
      | Some b \<Rightarrow>
          if passenger_id b = actor
          then (case booking_trip db b of
                  None \<Rightarrow> \<lparr>new_db = db, answer = ErrorOccurred, sent = []\<rparr>
                | Some t \<Rightarrow>
                    \<lparr>new_db = set_status bid CANCELLED
                                (add_seats (trip_id b) (seats_booked b) db),
                     answer = BookingCancelled,
                     sent = [DriverBookingCancelled (driver_id t) bid]\<rparr>)
          else \<lparr>new_db = db, answer = NoAnswer, sent = []\<rparr>)"

text \<open>
  \<^verbatim>\<open>exit_trip_\<close> in \<^verbatim>\<open>button_callback\<close>, again with no test of the booking's status. On a
  missing or inactive trip, and from the departure time on, the booking is only marked
  CANCELLED; before the departure of an active trip the seats go back and the driver is
  notified.
\<close>

definition exit_trip :: "env \<Rightarrow> int \<Rightarrow> int \<Rightarrow> database \<Rightarrow> outcome" where
  "exit_trip e actor bid db =
     (case get_booking db bid of
        None \<Rightarrow> \<lparr>new_db = db, answer = BookingNotFound, sent = []\<rparr>
      | Some b \<Rightarrow>
          if passenger_id b \<noteq> actor
          then \<lparr>new_db = db, answer = NotYourBooking, sent = []\<rparr>
          else (case booking_trip db b of
                  None \<Rightarrow> \<lparr>new_db = set_status bid CANCELLED db, answer = ExitDone, sent = []\<rparr>
                | Some t \<Rightarrow>
                    if \<not> is_active t
                    then \<lparr>new_db = set_status bid CANCELLED db, answer = ExitDone, sent = []\<rparr>
                    else if date t > now e
                    then \<lparr>new_db = set_status bid CANCELLED
                                     (add_seats (trip_id b) (seats_booked b) db),
                          answer = ExitCancelled,
                          sent = [DriverBookingCancelled (driver_id t) bid]\<rparr>
                    else \<lparr>new_db = set_status bid CANCELLED db, answer = ExitDone,
                          sent = []\<rparr>))"

section \<open>Driver cancels one booking (handlers.py, \<^verbatim>\<open>confirm_driver_cancel_\<close>)\<close>

text \<open>
  This branch has a try/except of its own: an AttributeError on a booking without a trip is
  answered with the error alert and nothing is committed. The passenger gets the same
  notification as for a rejection.
\<close>

definition confirm_driver_cancel :: "env \<Rightarrow> int \<Rightarrow> int \<Rightarrow> database \<Rightarrow> outcome" where
  "confirm_driver_cancel e actor bid db =
     (case get_booking db bid of
        None \<Rightarrow> \<lparr>new_db = db, answer = BookingNotFound, sent = []\<rparr>
      | Some b \<Rightarrow>
          if status b = CANCELLED \<or> status b = REJECTED \<or> status b = EXPIRED
          then \<lparr>new_db = db, answer = AlreadyCancelled, sent = []\<rparr>
          else (case booking_trip db b of
                  None \<Rightarrow> \<lparr>new_db = db, answer = ErrorOccurred, sent = []\<rparr>
                | Some t \<Rightarrow>
                    if driver_id t \<noteq> actor
                    then \<lparr>new_db = db, answer = NotYourTrip, sent = []\<rparr>
                    else \<lparr>new_db = set_status bid CANCELLED
                                     (add_seats (trip_id b) (seats_booked b) db),
                          answer = PassengerBookingCancelled,
                          sent = [PassengerRejected (passenger_id b) bid]\<rparr>))"

section \<open>Driver cancels the trip (handlers.py, \<^verbatim>\<open>cancel_trip\<close>)\<close>

text \<open>
  One turn of the loop of \<^verbatim>\<open>notify_passengers_trip_cancelled\<close>: the message is sent first;
  the status update and its commit follow inside the same try block, so they are skipped
  when the send raises. No seat count is touched.
\<close>

definition trip_cancel_notice :: "booking \<Rightarrow> notification" where
  "trip_cancel_notice b = PassengerTripCancelled (passenger_id b) (booking_id b)"

definition trip_cancel_one ::
  "env \<Rightarrow> booking \<Rightarrow> database \<times> notification list \<Rightarrow> database \<times> notification list" where
  "trip_cancel_one e b st =
     (let n = trip_cancel_notice b in
      if delivers e n
      then (set_status (booking_id b) CANCELLED (fst st), snd st @ [n])
      else (fst st, snd st @ [n]))"

text \<open>The loop runs over the PENDING and CONFIRMED bookings of the trip, queried once.\<close>

definition notify_passengers_trip_cancelled ::
  "env \<Rightarrow> int \<Rightarrow> database \<Rightarrow> database \<times> notification list" where
  "notify_passengers_trip_cancelled e tid db =
     fold (trip_cancel_one e)
          (filter (\<lambda>b. trip_id b = tid \<and> active (status b)) (bookings db))
          (db, [])"

definition cancel_trip :: "env \<Rightarrow> int \<Rightarrow> int \<Rightarrow> database \<Rightarrow> outcome" where
  "cancel_trip e actor tid db =
     (case trips db tid of
        None \<Rightarrow> \<lparr>new_db = db, answer = TripDeleted, sent = []\<rparr>
      | Some t \<Rightarrow>
          if \<not> is_active t
          then \<lparr>new_db = db, answer = TripDeleted, sent = []\<rparr>
          else if driver_id t \<noteq> actor
          then \<lparr>new_db = db, answer = NotYourTrip, sent = []\<rparr>
          else
            (let db1 = db\<lparr>trips := (trips db)(tid \<mapsto> t\<lparr>is_active := False\<rparr>)\<rparr>;
                 r = notify_passengers_trip_cancelled e tid db1
             in \<lparr>new_db = fst r, answer = TripCancelled, sent = snd r\<rparr>))"

section \<open>Driver picks a new seat count (handlers.py, \<^verbatim>\<open>edit_seats_pick_\<close>)\<close>

text \<open>\<^verbatim>\<open>_trip_has_confirmed_bookings\<close>: the count of CONFIRMED bookings of the trip is positive.\<close>

definition trip_has_confirmed_bookings :: "database \<Rightarrow> int \<Rightarrow> bool" where
  "trip_has_confirmed_bookings db tid \<longleftrightarrow>
     filter (\<lambda>b. trip_id b = tid \<and> status b = CONFIRMED) (bookings db) \<noteq> []"

text \<open>
  The picked number, between 1 and 5, is written to \<^verbatim>\<open>seats_available\<close> as it is; PENDING
  bookings of the trip are not subtracted.
\<close>

definition edit_seats_pick :: "env \<Rightarrow> int \<Rightarrow> int \<Rightarrow> int \<Rightarrow> database \<Rightarrow> outcome" where
  "edit_seats_pick e actor tid n db =
     (if n < 1 \<or> n > 5 then \<lparr>new_db = db, answer = NoAnswer, sent = []\<rparr>
      else
        (case trips db tid of
           None \<Rightarrow> \<lparr>new_db = db, answer = TripDeleted, sent = []\<rparr>
         | Some t \<Rightarrow>
             if \<not> is_active t
             then \<lparr>new_db = db, answer = TripDeleted, sent = []\<rparr>
             else if driver_id t \<noteq> actor
             then \<lparr>new_db = db, answer = NotYourTrip, sent = []\<rparr>
             else if date t < now e
             then \<lparr>new_db = db, answer = TripAlreadyPast, sent = []\<rparr>
             else if trip_has_confirmed_bookings db tid
             then \<lparr>new_db = db, answer = HasConfirmedBookings, sent = []\<rparr>
             else \<lparr>new_db = db\<lparr>trips := (trips db)(tid \<mapsto> t\<lparr>seats_available := n\<rparr>)\<rparr>,
                   answer = SeatsUpdated, sent = []\<rparr>))"

section \<open>The expiry job (booking_module.py, \<^verbatim>\<open>expire_pending_bookings_job\<close>)\<close>

text \<open>
  The session's pending changes, the counter \<^verbatim>\<open>expired_count\<close> and the notifications
  attempted so far.
\<close>

record sweep_state =
  work_db :: database
  expired_count :: nat
  notified :: "notification list"

text \<open>
  One turn of the loop, with the source's four guards in order: unparsable time, time not
  before the cutoff, status no longer PENDING, and the repeated time test. The passenger is
  notified only when the job's context has a bot; a failing notification is swallowed.
\<close>

definition expire_one :: "env \<Rightarrow> bool \<Rightarrow> int \<Rightarrow> booking \<Rightarrow> sweep_state \<Rightarrow> sweep_state" where
  "expire_one e has_bot cutoff b st =
     (case as_utc_datetime e (booking_time b) of
        None \<Rightarrow> st
      | Some bt \<Rightarrow>
          if bt \<ge> cutoff then st
          else if status b \<noteq> PENDING then st
          else (case as_utc_datetime e (booking_time b) of
                  None \<Rightarrow> st
                | Some bt2 \<Rightarrow>
                    if bt2 \<ge> cutoff then st
                    else
                      \<lparr>work_db = set_status (booking_id b) EXPIRED
                                   (add_seats (trip_id b) (seats_booked b) (work_db st)),
                       expired_count = Suc (expired_count st),
                       notified = notified st @
                         (if has_bot then [PassengerExpired (passenger_id b) (booking_id b)]
                          else [])\<rparr>))"

text \<open>
  What one run leaves: the database, how many bookings it expired, how many times it
  committed, and the notifications it attempted.
\<close>

record sweep_outcome =
  swept_db :: database
  expired :: nat
  commits :: nat
  notices :: "notification list"

text \<open>
  The job once its query has returned. The candidates are the PENDING rows, not filtered by
  time in SQL. There is one \<^verbatim>\<open>session.commit()\<close>, after the loop, and only when something
  expired.
\<close>

definition expire_candidates :: "env \<Rightarrow> bool \<Rightarrow> database \<Rightarrow> sweep_outcome" where
  "expire_candidates e has_bot db =
     (let cutoff = utcnow e - timedelta_minutes (ttl_minutes e);
          st = fold (expire_one e has_bot cutoff)
                    (filter (\<lambda>b. status b = PENDING) (bookings db))
                    \<lparr>work_db = db, expired_count = 0, notified = []\<rparr>
      in if expired_count st \<noteq> 0
         then \<lparr>swept_db = work_db st, expired = expired_count st, commits = 1,
               notices = notified st\<rparr>
         else \<lparr>swept_db = db, expired = 0, commits = 0, notices = notified st\<rparr>)"

text \<open>Whether the column type can load the row's \<^verbatim>\<open>booking_time\<close>.\<close>

fun loads :: "stored_time \<Rightarrow> bool" where
  "loads (Text s) = False"
| "loads t = True"

text \<open>
  The job. Its query \<^verbatim>\<open>.all()\<close> loads every PENDING row; the DateTime type raises ValueError
  on a stored text it cannot convert, and the query stands outside every try of the job, so
  the run ends there with nothing changed.
\<close>

definition expire_pending_bookings_job :: "env \<Rightarrow> bool \<Rightarrow> database \<Rightarrow> error + sweep_outcome" where
  "expire_pending_bookings_job e has_bot db =
     (if list_all (\<lambda>b. loads (booking_time b)) (filter (\<lambda>b. status b = PENDING) (bookings db))
      then Inr (expire_candidates e has_bot db)
      else Inl ValueError)"

text \<open>
  The two conditions under which a turn of the loop expires its booking, read off the guards:
  the stored time parses and lies strictly before \<^verbatim>\<open>utcnow() - timedelta(minutes=ttl)\<close>.
\<close>

definition overdue :: "env \<Rightarrow> booking \<Rightarrow> bool" where
  "overdue e b \<longleftrightarrow>
     (case as_utc_datetime e (booking_time b) of
        None \<Rightarrow> False
      | Some bt \<Rightarrow> bt < utcnow e - timedelta_minutes (ttl_minutes e))"

definition expires :: "env \<Rightarrow> booking \<Rightarrow> bool" where
  "expires e b \<longleftrightarrow> status b = PENDING \<and> overdue e b"

section \<open>The operations of the engine\<close>

text \<open>
  \<^verbatim>\<open>button_callback\<close> dispatches on the prefix of the callback data; the payloads of the
  reservation branches, after their integers are parsed, are these.
\<close>

datatype command =
    BookQty int int
  | ConfirmBooking int
  | RejectBooking int
  | ConfirmCancel int
  | ConfirmDriverCancel int
  | ConfirmTripCancel int
  | ExitTrip int

definition button_callback :: "env \<Rightarrow> int \<Rightarrow> command \<Rightarrow> database \<Rightarrow> outcome" where
  "button_callback e actor c db =
     (case c of
        BookQty tid n \<Rightarrow> handle_callback e actor tid n db
      | ConfirmBooking bid \<Rightarrow> confirm_booking e actor bid db
      | RejectBooking bid \<Rightarrow> guarded db (reject_booking e actor bid db)
      | ConfirmCancel bid \<Rightarrow> guarded db (confirm_cancel e actor bid db)
      | ConfirmDriverCancel bid \<Rightarrow> confirm_driver_cancel e actor bid db
      | ConfirmTripCancel tid \<Rightarrow> cancel_trip e actor tid db
      | ExitTrip bid \<Rightarrow> exit_trip e actor bid db)"

text \<open>
  An event is a callback of some user, a typed yes of a user whose \<^verbatim>\<open>user_data\<close> holds the
  given booking id, or a run of the periodic job. A run that fails leaves the database as
  it was.
\<close>

datatype event = Callback int command | TypedYes int int | ExpiryJob bool

definition engine_step :: "env \<Rightarrow> event \<Rightarrow> database \<Rightarrow> database" where
  "engine_step e ev db =
     (case ev of
        Callback actor c \<Rightarrow> new_db (button_callback e actor c db)
      | TypedYes actor bid \<Rightarrow> new_db (handle_message_cancel_yes e actor bid db)
      | ExpiryJob has_bot \<Rightarrow>
          (case expire_pending_bookings_job e has_bot db of
             Inl err \<Rightarrow> db
           | Inr out \<Rightarrow> swept_db out))"

fun is_trip_cancel :: "event \<Rightarrow> bool" where
  "is_trip_cancel (Callback actor (ConfirmTripCancel tid)) = True"
| "is_trip_cancel ev = False"


text \<open>A history: each event with the surroundings it ran in.\<close>

fun run :: "(env \<times> event) list \<Rightarrow> database \<Rightarrow> database" where
  "run [] db = db"
| "run (x # xs) db = run xs (engine_step (fst x) (snd x) db)"

section \<open>Seat accounting\<close>





text \<open>No two active bookings share trip and passenger.\<close>

definition one_active_per_passenger :: "database \<Rightarrow> bool" where
  "one_active_per_passenger db \<longleftrightarrow>
     distinct (map (\<lambda>b. (trip_id b, passenger_id b))
       (filter (\<lambda>b. active (status b)) (bookings db)))"

section \<open>A concrete scenario\<close>

text \<open>
  Trip 7 of driver 1 with three seats, no bookings yet. The clock stands at 1000 seconds, the
  TTL is the default of 15 minutes, the bot delivers, and stored strings do not parse.
\<close>

definition env0 :: env where
  "env0 = \<lparr>ttl_setting = 15, utcnow = 1000000000, now = 1000000000,
           py_strip = (\<lambda>s. s), fromisoformat = (\<lambda>s. None), strptime = (\<lambda>s f. None),
           delivers = (\<lambda>n. True)\<rparr>"

text \<open>The same surroundings an hour after the departure of trip 7.\<close>

definition env_late :: env where
  "env_late = env0\<lparr>now := 8600000000\<rparr>"

text \<open>The same surroundings with a bot whose every send fails.\<close>

definition env_down :: env where
  "env_down = env0\<lparr>delivers := (\<lambda>n. False)\<rparr>"

definition trip0 :: trip where
  "trip0 = \<lparr>driver_id = 1, date = 5000000000, seats_available = 3, is_active = True\<rparr>"

definition db0 :: database where
  "db0 = \<lparr>trips = [7 \<mapsto> trip0], bookings = []\<rparr>"

text \<open>A booking row of passenger 2 on trip 7 for two seats, made at the given time.\<close>

definition booking0 :: "stored_time \<Rightarrow> booking_status \<Rightarrow> booking" where
  "booking0 t s = \<lparr>booking_id = 1, trip_id = 7, passenger_id = 2, seats_booked = 2,
                   booking_time = t, status = s\<rparr>"

text \<open>Trip 7 with one seat free and that booking holding, or having held, the other two.\<close>

definition db1 :: "stored_time \<Rightarrow> booking_status \<Rightarrow> database" where
  "db1 t s = \<lparr>trips = [7 \<mapsto> trip0\<lparr>seats_available := 1\<rparr>], bookings = [booking0 t s]\<rparr>"

text \<open>
  Two histories on trip 7. In both, passenger 2 requests two seats and driver 1 confirms.
  In the first, passenger 2 then cancels by typing yes, passenger 3 requests a seat and
  leaves the trip again before its departure, and the expiry job runs. In the second, the
  driver cancels the trip.
\<close>

definition history_sweep :: "(env \<times> event) list" where
  "history_sweep = [(env0, Callback 2 (BookQty 7 2)), (env0, Callback 1 (ConfirmBooking 1)),
                    (env0, TypedYes 2 1), (env0, Callback 3 (BookQty 7 1)),
                    (env0, Callback 3 (ExitTrip 2)), (env0, ExpiryJob True)]"

definition history_cancel :: "(env \<times> event) list" where
  "history_cancel = [(env0, Callback 2 (BookQty 7 2)), (env0, Callback 1 (ConfirmBooking 1)),
                     (env0, Callback 1 (ConfirmTripCancel 7))]"

text \<open>
  A history met by the database whose booking 1 has expired: passenger 3 requests the free
  seat and cancels again by typing yes, the expiry job runs, and the driver cancels the trip.
\<close>

definition history_late :: "(env \<times> event) list" where
  "history_late = [(env0, Callback 3 (BookQty 7 1)), (env0, TypedYes 3 2),
                   (env0, ExpiryJob True), (env0, Callback 1 (ConfirmTripCancel 7))]"

text \<open>Trip 7 fully booked by two PENDING requests made at the given times.\<close>

definition db2 :: "stored_time \<Rightarrow> stored_time \<Rightarrow> database" where
  "db2 t1 t2 = \<lparr>trips = [7 \<mapsto> trip0\<lparr>seats_available := 0\<rparr>],
                bookings = [booking0 t1 PENDING,
                            \<lparr>booking_id = 2, trip_id = 7, passenger_id = 3, seats_booked = 1,
                             booking_time = t2, status = PENDING\<rparr>]\<rparr>"

text \<open>
  How a trip comes to more than five free seats. Trip 7 is created with five seats and
  passenger 2 requests three of them; the driver picks five as the new seat count, which
  overwrites the two remaining free seats; the driver then rejects the request and its
  three seats are added on top.
\<close>

definition db5 :: database where
  "db5 = \<lparr>trips = [7 \<mapsto> trip0\<lparr>seats_available := 5\<rparr>], bookings = []\<rparr>"

definition db_requested :: database where
  "db_requested = new_db (handle_callback env0 2 7 3 db5)"

definition db_edited :: database where
  "db_edited = new_db (edit_seats_pick env0 1 7 5 db_requested)"

definition db_wide :: database where
  "db_wide = new_db (button_callback env0 1 (RejectBooking 1) db_edited)"

section \<open>Auxiliary facts\<close>

lemma trips_set_status: "trips (set_status bid s db) = trips db"
  by (simp add: set_status_def)

lemma bookings_set_status:
  "bookings (set_status bid s db) = map (\<lambda>b. if booking_id b = bid then b\<lparr>status := s\<rparr> else b) (bookings db)"
  by (simp add: set_status_def)

lemma bookings_add_seats: "bookings (add_seats tid n db) = bookings db"
  by (simp add: add_seats_def split: option.splits)

lemma trips_add_seats:
  "trips (add_seats tid n db) tid' =
     (if tid' = tid then map_option (\<lambda>t. t\<lparr>seats_available := seats_available t + n\<rparr>) (trips db tid)
      else trips db tid')"
  by (simp add: add_seats_def split: option.splits)

lemma find_id_SomeD:
  "find (\<lambda>b. booking_id b = bid) bs = Some b \<Longrightarrow> b \<in> set bs \<and> booking_id b = bid"
  by (induction bs) (auto split: if_splits)

lemma get_booking_SomeD:
  "get_booking db bid = Some b \<Longrightarrow> b \<in> set (bookings db) \<and> booking_id b = bid"
  unfolding get_booking_def by (rule find_id_SomeD)




lemma ids_relabel:
  "map booking_id (map (\<lambda>b. if P b then b\<lparr>status := s\<rparr> else b) bs) = map booking_id bs"
  by (induction bs) auto

lemma wf_set_status: "wf_db (set_status bid s db) = wf_db db"
  unfolding wf_db_def bookings_set_status by (simp only: ids_relabel)

lemma wf_add_seats: "wf_db (add_seats t n db) = wf_db db"
  by (simp add: wf_db_def bookings_add_seats)



lemma relabel_in_set:
  assumes "distinct (map booking_id bs)"
  shows "map (\<lambda>b. if booking_id b \<in> booking_id ` {c \<in> set (filter Q bs). R c} then b\<lparr>status := s\<rparr> else b) bs
       = map (\<lambda>b. if Q b \<and> R b then b\<lparr>status := s\<rparr> else b) bs"
proof (rule map_cong [OF refl])
  fix b assume b: "b \<in> set bs"
  have inj: "inj_on booking_id (set bs)" using assms by (simp add: distinct_map)
  have "booking_id b \<in> booking_id ` {c \<in> set (filter Q bs). R c} \<longleftrightarrow> Q b \<and> R b"
  proof
    assume "booking_id b \<in> booking_id ` {c \<in> set (filter Q bs). R c}"
    then obtain c where c: "c \<in> set bs" "Q c" "R c" "booking_id b = booking_id c" by auto
    then have "b = c" using inj b by (auto dest: inj_onD)
    then show "Q b \<and> R b" using c by simp
  next
    assume "Q b \<and> R b"
    then show "booking_id b \<in> booking_id ` {c \<in> set (filter Q bs). R c}" using b by auto
  qed
  then show "(if booking_id b \<in> booking_id ` {c \<in> set (filter Q bs). R c} then b\<lparr>status := s\<rparr> else b)
           = (if Q b \<and> R b then b\<lparr>status := s\<rparr> else b)" by simp
qed

lemma expire_one_eq:
  "expire_one e hb (utcnow e - timedelta_minutes (ttl_minutes e)) b st =
     (if expires e b
      then \<lparr>work_db = set_status (booking_id b) EXPIRED
                         (add_seats (trip_id b) (seats_booked b) (work_db st)),
            expired_count = Suc (expired_count st),
            notified = notified st @
              (if hb then [PassengerExpired (passenger_id b) (booking_id b)] else [])\<rparr>
      else st)"
  by (simp add: expire_one_def expires_def overdue_def split: option.splits)

lemma sweep_fold_bookings:
  "bookings (work_db (fold (expire_one e hb (utcnow e - timedelta_minutes (ttl_minutes e))) cs st))
   = map (\<lambda>b. if booking_id b \<in> booking_id ` {c \<in> set cs. expires e c}
               then b\<lparr>status := EXPIRED\<rparr> else b) (bookings (work_db st))"
proof (induction cs arbitrary: st)
  case Nil
  then show ?case by simp
next
  case (Cons c cs)
  let ?F = "expire_one e hb (utcnow e - timedelta_minutes (ttl_minutes e))"
  have unroll: "bookings (work_db (fold ?F (c # cs) st))
      = map (\<lambda>b. if booking_id b \<in> booking_id ` {x \<in> set cs. expires e x}
                  then b\<lparr>status := EXPIRED\<rparr> else b) (bookings (work_db (?F c st)))"
    by (simp add: Cons.IH)
  show ?case
  proof (cases "expires e c")
    case True
    have s: "{x \<in> set (c # cs). expires e x} = insert c {x \<in> set cs. expires e x}"
      using True by auto
    have "bookings (work_db (?F c st))
        = map (\<lambda>b. if booking_id b = booking_id c then b\<lparr>status := EXPIRED\<rparr> else b)
              (bookings (work_db st))"
      using True by (simp add: expire_one_eq bookings_set_status bookings_add_seats)
    then show ?thesis
      unfolding unroll s by (auto simp: comp_def intro!: map_cong)
  next
    case False
    then have s: "{x \<in> set (c # cs). expires e x} = {x \<in> set cs. expires e x}" by auto
    have "?F c st = st" using False by (simp add: expire_one_eq)
    then show ?thesis unfolding unroll s by simp
  qed
qed

lemma sweep_fold_trips:
  "trips (work_db (fold (expire_one e hb (utcnow e - timedelta_minutes (ttl_minutes e))) cs st)) tid
   = map_option
       (\<lambda>t. t\<lparr>seats_available := seats_available t
                + sum_list (map seats_booked (filter (\<lambda>c. expires e c \<and> trip_id c = tid) cs))\<rparr>)
       (trips (work_db st) tid)"
proof (induction cs arbitrary: st)
  case Nil
  then show ?case by (cases "trips (work_db st) tid") simp_all
next
  case (Cons c cs)
  let ?F = "expire_one e hb (utcnow e - timedelta_minutes (ttl_minutes e))"
  have unroll: "trips (work_db (fold ?F (c # cs) st)) tid
      = map_option
         (\<lambda>t. t\<lparr>seats_available := seats_available t
                + sum_list (map seats_booked (filter (\<lambda>c. expires e c \<and> trip_id c = tid) cs))\<rparr>)
         (trips (work_db (?F c st)) tid)"
    by (simp add: Cons.IH)
  have one: "trips (work_db (?F c st)) tid
      = (if expires e c \<and> trip_id c = tid
         then map_option (\<lambda>t. t\<lparr>seats_available := seats_available t + seats_booked c\<rparr>)
                (trips (work_db st) tid)
         else trips (work_db st) tid)"
    by (simp add: expire_one_eq trips_set_status trips_add_seats)
  show ?case unfolding unroll one
    by (cases "trips (work_db st) tid") simp_all
qed

lemma sweep_fold_count:
  "expired_count (fold (expire_one e hb (utcnow e - timedelta_minutes (ttl_minutes e))) cs st)
   = expired_count st + length (filter (expires e) cs)"
proof (induction cs arbitrary: st)
  case Nil
  then show ?case by simp
next
  case (Cons c cs)
  let ?F = "expire_one e hb (utcnow e - timedelta_minutes (ttl_minutes e))"
  have "expired_count (fold ?F (c # cs) st)
      = expired_count (?F c st) + length (filter (expires e) cs)"
    by (simp add: Cons.IH)
  also have "expired_count (?F c st) = expired_count st + (if expires e c then 1 else 0)"
    by (simp add: expire_one_eq)
  finally show ?case by simp
qed

lemma sweep_fold_notified:
  "notified (fold (expire_one e hb (utcnow e - timedelta_minutes (ttl_minutes e))) cs st)
   = notified st @ (if hb then map (\<lambda>c. PassengerExpired (passenger_id c) (booking_id c))
                                  (filter (expires e) cs) else [])"
proof (induction cs arbitrary: st)
  case Nil
  then show ?case by simp
next
  case (Cons c cs)
  let ?F = "expire_one e hb (utcnow e - timedelta_minutes (ttl_minutes e))"
  have "notified (fold ?F (c # cs) st)
      = notified (?F c st) @ (if hb then map (\<lambda>c. PassengerExpired (passenger_id c) (booking_id c))
                                  (filter (expires e) cs) else [])"
    by (simp add: Cons.IH)
  also have "notified (?F c st) = notified st @
      (if hb \<and> expires e c then [PassengerExpired (passenger_id c) (booking_id c)] else [])"
    by (simp add: expire_one_eq)
  finally show ?case by simp
qed

lemma expires_pending: "expires e b \<Longrightarrow> status b = PENDING"
  by (simp add: expires_def)

lemma filter_pending_expires:
  "filter (\<lambda>x. status x = PENDING \<and> expires e x \<and> P x) bs
   = filter (\<lambda>c. expires e c \<and> P c) bs"
  by (rule filter_cong) (auto simp: expires_def)

lemma filter_pending_expires':
  "filter (\<lambda>x. status x = PENDING \<and> expires e x) bs = filter (expires e) bs"
  by (rule filter_cong) (auto simp: expires_def)

lemma sweep_expired:
  "expired (expire_candidates e hb db) = length (filter (expires e) (bookings db))"
  by (simp add: expire_candidates_def Let_def sweep_fold_count filter_pending_expires')

lemma sweep_commits:
  "commits (expire_candidates e hb db)
   = (if filter (expires e) (bookings db) = [] then 0 else 1)"
  by (simp add: expire_candidates_def Let_def sweep_fold_count filter_pending_expires')

lemma sweep_notices:
  "notices (expire_candidates e hb db)
   = (if hb then map (\<lambda>c. PassengerExpired (passenger_id c) (booking_id c))
                  (filter (expires e) (bookings db)) else [])"
  by (simp add: expire_candidates_def Let_def sweep_fold_notified filter_pending_expires')

lemma sweep_bookings:
  assumes "wf_db db"
  shows "bookings (swept_db (expire_candidates e hb db))
       = map (\<lambda>b. if expires e b then b\<lparr>status := EXPIRED\<rparr> else b) (bookings db)"
proof (cases "filter (expires e) (bookings db) = []")
  case True
  then have "\<forall>b \<in> set (bookings db). \<not> expires e b" by (simp add: filter_empty_conv)
  then have "map (\<lambda>b. if expires e b then b\<lparr>status := EXPIRED\<rparr> else b) (bookings db) = bookings db"
    by (simp add: map_idI)
  then show ?thesis using True
    by (simp add: expire_candidates_def Let_def sweep_fold_count filter_pending_expires')
next
  case False
  let ?st = "fold (expire_one e hb (utcnow e - timedelta_minutes (ttl_minutes e)))
               (filter (\<lambda>b. status b = PENDING) (bookings db))
               \<lparr>work_db = db, expired_count = 0, notified = []\<rparr>"
  have "swept_db (expire_candidates e hb db) = work_db ?st"
    using False
    by (simp add: expire_candidates_def Let_def sweep_fold_count filter_pending_expires')
  then have "bookings (swept_db (expire_candidates e hb db))
      = map (\<lambda>b. if booking_id b \<in> booking_id `
                       {c \<in> set (filter (\<lambda>b. status b = PENDING) (bookings db)). expires e c}
                  then b\<lparr>status := EXPIRED\<rparr> else b) (bookings db)"
    by (simp only: sweep_fold_bookings) simp
  also have "\<dots> = map (\<lambda>b. if status b = PENDING \<and> expires e b
                            then b\<lparr>status := EXPIRED\<rparr> else b) (bookings db)"
    by (rule relabel_in_set [OF assms[unfolded wf_db_def]])
  also have "\<dots> = map (\<lambda>b. if expires e b then b\<lparr>status := EXPIRED\<rparr> else b) (bookings db)"
    by (rule map_cong) (auto simp: expires_def)
  finally show ?thesis .
qed

lemma sweep_trips:
  "trips (swept_db (expire_candidates e hb db)) tid
   = map_option
       (\<lambda>t. t\<lparr>seats_available := seats_available t
                + sum_list (map seats_booked
                    (filter (\<lambda>c. expires e c \<and> trip_id c = tid) (bookings db)))\<rparr>)
       (trips db tid)"
proof (cases "filter (expires e) (bookings db) = []")
  case True
  then have "\<forall>b \<in> set (bookings db). \<not> expires e b" by (simp add: filter_empty_conv)
  then have "filter (\<lambda>c. expires e c \<and> trip_id c = tid) (bookings db) = []"
    by (simp add: filter_empty_conv)
  then show ?thesis using True
    by (cases "trips db tid")
       (simp_all add: expire_candidates_def Let_def sweep_fold_count filter_pending_expires')
next
  case False
  then show ?thesis
    by (simp add: expire_candidates_def Let_def sweep_fold_count filter_pending_expires'
          sweep_fold_trips filter_pending_expires)
qed



lemma wf_sweep:
  assumes "wf_db db"
  shows "wf_db (swept_db (expire_candidates e hb db))"
  using assms unfolding wf_db_def sweep_bookings [OF assms] by (simp only: ids_relabel)

lemma cancel_fold_bookings:
  "bookings (fst (fold (trip_cancel_one e) cs st))
   = map (\<lambda>b. if booking_id b \<in> booking_id ` {c \<in> set cs. delivers e (trip_cancel_notice c)}
               then b\<lparr>status := CANCELLED\<rparr> else b) (bookings (fst st))"
proof (induction cs arbitrary: st)
  case Nil
  then show ?case by simp
next
  case (Cons c cs)
  have unroll: "bookings (fst (fold (trip_cancel_one e) (c # cs) st))
      = map (\<lambda>b. if booking_id b \<in> booking_id ` {x \<in> set cs. delivers e (trip_cancel_notice x)}
                  then b\<lparr>status := CANCELLED\<rparr> else b)
            (bookings (fst (trip_cancel_one e c st)))"
    by (simp add: Cons.IH)
  show ?case
  proof (cases "delivers e (trip_cancel_notice c)")
    case True
    have s: "{x \<in> set (c # cs). delivers e (trip_cancel_notice x)}
           = insert c {x \<in> set cs. delivers e (trip_cancel_notice x)}"
      using True by auto
    have "bookings (fst (trip_cancel_one e c st))
        = map (\<lambda>b. if booking_id b = booking_id c then b\<lparr>status := CANCELLED\<rparr> else b)
              (bookings (fst st))"
      using True by (simp add: trip_cancel_one_def bookings_set_status)
    then show ?thesis
      unfolding unroll s by (auto simp: comp_def intro!: map_cong)
  next
    case False
    then have s: "{x \<in> set (c # cs). delivers e (trip_cancel_notice x)}
           = {x \<in> set cs. delivers e (trip_cancel_notice x)}" by auto
    have "fst (trip_cancel_one e c st) = fst st" using False by (simp add: trip_cancel_one_def)
    then show ?thesis unfolding unroll s by simp
  qed
qed

lemma cancel_fold_trips: "trips (fst (fold (trip_cancel_one e) cs st)) = trips (fst st)"
proof (induction cs arbitrary: st)
  case Nil
  then show ?case by simp
next
  case (Cons c cs)
  have "trips (fst (fold (trip_cancel_one e) (c # cs) st)) = trips (fst (trip_cancel_one e c st))"
    by (simp add: Cons.IH)
  also have "\<dots> = trips (fst st)"
    by (simp add: trip_cancel_one_def Let_def trips_set_status)
  finally show ?case .
qed

lemma cancel_fold_sent:
  "snd (fold (trip_cancel_one e) cs st) = snd st @ map trip_cancel_notice cs"
proof (induction cs arbitrary: st)
  case Nil
  then show ?case by simp
next
  case (Cons c cs)
  have "snd (fold (trip_cancel_one e) (c # cs) st)
      = snd (trip_cancel_one e c st) @ map trip_cancel_notice cs"
    by (simp add: Cons.IH)
  also have "snd (trip_cancel_one e c st) = snd st @ [trip_cancel_notice c]"
    by (simp add: trip_cancel_one_def Let_def)
  finally show ?case by simp
qed

lemma notify_trip_cancelled_bookings:
  assumes "wf_db db"
  shows "bookings (fst (notify_passengers_trip_cancelled e tid db))
       = map (\<lambda>b. if (trip_id b = tid \<and> active (status b)) \<and> delivers e (trip_cancel_notice b)
                   then b\<lparr>status := CANCELLED\<rparr> else b) (bookings db)"
  unfolding notify_passengers_trip_cancelled_def cancel_fold_bookings fst_conv
  by (rule relabel_in_set [OF assms[unfolded wf_db_def]])

lemma notify_trip_cancelled_trips:
  "trips (fst (notify_passengers_trip_cancelled e tid db)) = trips db"
  by (simp add: notify_passengers_trip_cancelled_def cancel_fold_trips)

lemma notify_trip_cancelled_sent:
  "snd (notify_passengers_trip_cancelled e tid db)
   = map trip_cancel_notice (filter (\<lambda>b. trip_id b = tid \<and> active (status b)) (bookings db))"
  by (simp add: notify_passengers_trip_cancelled_def cancel_fold_sent)

lemma cancel_trip_effect:
  assumes "wf_db db" and "trips db tid = Some t" and "is_active t" and "driver_id t = actor"
  shows "trips (new_db (cancel_trip e actor tid db)) = (trips db)(tid \<mapsto> t\<lparr>is_active := False\<rparr>)"
    and "bookings (new_db (cancel_trip e actor tid db))
       = map (\<lambda>b. if (trip_id b = tid \<and> active (status b)) \<and> delivers e (trip_cancel_notice b)
                   then b\<lparr>status := CANCELLED\<rparr> else b) (bookings db)"
    and "sent (cancel_trip e actor tid db)
       = map trip_cancel_notice (filter (\<lambda>b. trip_id b = tid \<and> active (status b)) (bookings db))"
    and "answer (cancel_trip e actor tid db) = TripCancelled"
proof -
  let ?db1 = "db\<lparr>trips := (trips db)(tid \<mapsto> t\<lparr>is_active := False\<rparr>)\<rparr>"
  have w: "wf_db ?db1" using assms(1) by (simp add: wf_db_def)
  have c: "cancel_trip e actor tid db
     = \<lparr>new_db = fst (notify_passengers_trip_cancelled e tid ?db1), answer = TripCancelled,
        sent = snd (notify_passengers_trip_cancelled e tid ?db1)\<rparr>"
    using assms(2-4) by (simp add: cancel_trip_def Let_def)
  show "trips (new_db (cancel_trip e actor tid db)) = (trips db)(tid \<mapsto> t\<lparr>is_active := False\<rparr>)"
    by (simp add: c notify_trip_cancelled_trips)
  show "bookings (new_db (cancel_trip e actor tid db))
       = map (\<lambda>b. if (trip_id b = tid \<and> active (status b)) \<and> delivers e (trip_cancel_notice b)
                   then b\<lparr>status := CANCELLED\<rparr> else b) (bookings db)"
    by (simp add: c notify_trip_cancelled_bookings [OF w])
  show "sent (cancel_trip e actor tid db)
       = map trip_cancel_notice (filter (\<lambda>b. trip_id b = tid \<and> active (status b)) (bookings db))"
    by (simp add: c notify_trip_cancelled_sent)
  show "answer (cancel_trip e actor tid db) = TripCancelled" by (simp add: c)
qed

lemma cancel_trip_refused:
  assumes "\<not> (\<exists>t. trips db tid = Some t \<and> is_active t \<and> driver_id t = actor)"
  shows "new_db (cancel_trip e actor tid db) = db" and "sent (cancel_trip e actor tid db) = []"
  using assms by (auto simp: cancel_trip_def split: option.splits)

lemma next_booking_id_fresh:
  "b \<in> set (bookings db) \<Longrightarrow> booking_id b < next_booking_id db"
proof -
  have "b \<in> set bs \<Longrightarrow> booking_id b \<le> foldr max (map booking_id bs) 0" for bs
    by (induction bs) auto
  then show "b \<in> set (bookings db) \<Longrightarrow> booking_id b < next_booking_id db"
    unfolding next_booking_id_def by fastforce
qed


lemma handle_callback_created:
  assumes "answer (handle_callback e actor tid n db) = BookingRequested bid"
  obtains t where "trips db tid = Some t" and "is_active t" and "driver_id t \<noteq> actor"
    and "\<not> date t < now e" and "1 \<le> n" and "n \<le> seats_available t"
    and "existing_booking db tid actor = None" and "bid = next_booking_id db"
    and "new_db (handle_callback e actor tid n db)
         = db\<lparr>trips := (trips db)(tid \<mapsto> t\<lparr>seats_available := seats_available t - n\<rparr>),
              bookings := bookings db @
                [\<lparr>booking_id = bid, trip_id = tid, passenger_id = actor, seats_booked = n,
                  booking_time = Stamp (utcnow e), status = PENDING\<rparr>]\<rparr>"
    and "sent (handle_callback e actor tid n db) = [DriverNewBooking (driver_id t) bid n]"
  using assms
  by (auto simp: handle_callback_def Let_def split: option.splits if_splits)

lemma handle_callback_refused:
  assumes "\<forall>bid. answer (handle_callback e actor tid n db) \<noteq> BookingRequested bid"
  shows "new_db (handle_callback e actor tid n db) = db"
    and "sent (handle_callback e actor tid n db) = []"
  using assms
  by (auto simp: handle_callback_def Let_def split: option.splits if_splits)


lemma wf_handle_callback:
  assumes "wf_db db"
  shows "wf_db (new_db (handle_callback e actor tid n db))"
proof (cases "\<exists>bid. answer (handle_callback e actor tid n db) = BookingRequested bid")
  case True
  then obtain bid where "answer (handle_callback e actor tid n db) = BookingRequested bid" ..
  then show ?thesis
    using assms next_booking_id_fresh [of _ db]
    by (elim handle_callback_created) (force simp: wf_db_def)
next
  case False
  then show ?thesis using assms by (simp add: handle_callback_refused)
qed


lemma wf_confirm_booking:
  assumes "wf_db db"
  shows "wf_db (new_db (confirm_booking e actor bid db))"
  using assms
  by (simp add: confirm_booking_def Let_def wf_set_status wf_add_seats split: option.splits)


lemma wf_reject_booking:
  assumes "wf_db db"
  shows "wf_db (new_db (guarded db (reject_booking e actor bid db)))"
  using assms
  by (simp add: reject_booking_def guarded_def wf_set_status wf_add_seats split: option.splits)


lemma wf_confirm_cancel:
  assumes "wf_db db"
  shows "wf_db (new_db (guarded db (confirm_cancel e actor bid db)))"
  using assms
  by (simp add: confirm_cancel_def guarded_def wf_set_status wf_add_seats split: option.splits)


lemma wf_confirm_driver_cancel:
  assumes "wf_db db"
  shows "wf_db (new_db (confirm_driver_cancel e actor bid db))"
  using assms
  by (simp add: confirm_driver_cancel_def wf_set_status wf_add_seats split: option.splits)

lemma wf_cancel_trip:
  assumes "wf_db db"
  shows "wf_db (new_db (cancel_trip e actor tid db))"
proof (cases "\<exists>t. trips db tid = Some t \<and> is_active t \<and> driver_id t = actor")
  case True
  then obtain t where t: "trips db tid = Some t" "is_active t" "driver_id t = actor" by blast
  show ?thesis
    using assms unfolding wf_db_def cancel_trip_effect(2) [OF assms t]
    by (simp only: ids_relabel)
next
  case False
  then show ?thesis using assms by (simp add: cancel_trip_refused)
qed

lemma wf_handle_message_cancel_yes:
  assumes "wf_db db"
  shows "wf_db (new_db (handle_message_cancel_yes e actor bid db))"
  using assms
  by (simp add: handle_message_cancel_yes_def wf_set_status wf_add_seats split: option.splits)

lemma wf_exit_trip:
  assumes "wf_db db"
  shows "wf_db (new_db (exit_trip e actor bid db))"
  using assms
  by (simp add: exit_trip_def wf_set_status wf_add_seats split: option.splits)

lemma job_cases:
  obtains "expire_pending_bookings_job e hb db = Inl ValueError"
  | "expire_pending_bookings_job e hb db = Inr (expire_candidates e hb db)"
  by (cases "list_all (\<lambda>b. loads (booking_time b))
               (filter (\<lambda>b. status b = PENDING) (bookings db))")
     (simp_all add: expire_pending_bookings_job_def)

lemma wf_engine_step:
  assumes "wf_db db"
  shows "wf_db (engine_step e ev db)"
proof (cases ev)
  case (Callback actor c)
  then show ?thesis
    using assms
    by (cases c)
       (simp_all add: engine_step_def button_callback_def wf_handle_callback wf_confirm_booking
          wf_reject_booking wf_confirm_cancel wf_confirm_driver_cancel wf_cancel_trip
          wf_exit_trip)
next
  case (TypedYes actor bid)
  then show ?thesis using assms by (simp add: engine_step_def wf_handle_message_cancel_yes)
next
  case (ExpiryJob hb)
  then show ?thesis
    using assms by (cases rule: job_cases [of e hb db]) (simp_all add: engine_step_def wf_sweep)
qed




lemma get_booking_unique:
  assumes "wf_db db" and "get_booking db bid = Some b"
    and "b' \<in> set (bookings db)" and "booking_id b' = bid"
  shows "b' = b"
proof -
  from assms(2) have "b \<in> set (bookings db)" "booking_id b = bid"
    by (auto dest: get_booking_SomeD)
  moreover have "inj_on booking_id (set (bookings db))"
    using assms(1) by (simp add: wf_db_def distinct_map)
  ultimately show ?thesis using assms(3,4) by (auto dest: inj_onD)
qed




lemma keys_relabel_subset:
  assumes "\<forall>b \<in> set bs. trip_id (f b) = trip_id b \<and> passenger_id (f b) = passenger_id b
             \<and> (active (status (f b)) \<longrightarrow> active (status b))"
  shows "set (map (\<lambda>b. (trip_id b, passenger_id b)) (filter (\<lambda>b. active (status b)) (map f bs)))
       \<subseteq> set (map (\<lambda>b. (trip_id b, passenger_id b)) (filter (\<lambda>b. active (status b)) bs))"
  using assms by (induction bs) auto

lemma distinct_keys_relabel:
  assumes "\<forall>b \<in> set bs. trip_id (f b) = trip_id b \<and> passenger_id (f b) = passenger_id b
             \<and> (active (status (f b)) \<longrightarrow> active (status b))"
    and "distinct (map (\<lambda>b. (trip_id b, passenger_id b)) (filter (\<lambda>b. active (status b)) bs))"
  shows "distinct (map (\<lambda>b. (trip_id b, passenger_id b)) (filter (\<lambda>b. active (status b)) (map f bs)))"
  using assms
proof (induction bs)
  case Nil
  then show ?case by simp
next
  case (Cons a bs)
  have sub: "set (map (\<lambda>b. (trip_id b, passenger_id b)) (filter (\<lambda>b. active (status b)) (map f bs)))
       \<subseteq> set (map (\<lambda>b. (trip_id b, passenger_id b)) (filter (\<lambda>b. active (status b)) bs))"
    using Cons.prems(1) by (intro keys_relabel_subset) simp
  have ih: "distinct (map (\<lambda>b. (trip_id b, passenger_id b)) (filter (\<lambda>b. active (status b)) (map f bs)))"
    using Cons by (simp split: if_splits)
  show ?case
  proof (cases "active (status (f a))")
    case True
    then have act: "active (status a)" using Cons.prems(1) by simp
    have key: "trip_id (f a) = trip_id a" "passenger_id (f a) = passenger_id a"
      using Cons.prems(1) by simp_all
    have "(trip_id a, passenger_id a)
            \<notin> set (map (\<lambda>b. (trip_id b, passenger_id b)) (filter (\<lambda>b. active (status b)) bs))"
      using Cons.prems(2) act by simp
    then have "(trip_id a, passenger_id a)
            \<notin> set (map (\<lambda>b. (trip_id b, passenger_id b)) (filter (\<lambda>b. active (status b)) (map f bs)))"
      using sub by blast
    then show ?thesis using True ih key by simp
  next
    case False
    then show ?thesis using ih by simp
  qed
qed

lemma one_active_set_status:
  assumes "one_active_per_passenger db"
    and "\<forall>b \<in> set (bookings db). booking_id b = bid \<longrightarrow> active s \<longrightarrow> active (status b)"
  shows "one_active_per_passenger (set_status bid s db)"
  unfolding one_active_per_passenger_def bookings_set_status
  using assms by (intro distinct_keys_relabel) (auto simp: one_active_per_passenger_def)

lemma one_active_add_seats:
  "one_active_per_passenger (add_seats tid n db) = one_active_per_passenger db"
  by (simp add: one_active_per_passenger_def bookings_add_seats)

lemma one_active_relabel_down:
  assumes "distinct (map (\<lambda>b. (trip_id b, passenger_id b)) (filter (\<lambda>b. active (status b)) bs))"
    and "\<not> active s"
  shows "distinct (map (\<lambda>b. (trip_id b, passenger_id b))
           (filter (\<lambda>b. active (status b)) (map (\<lambda>b. if P b then b\<lparr>status := s\<rparr> else b) bs)))"
  using assms by (intro distinct_keys_relabel) auto

lemma existing_booking_None:
  "existing_booking db tid pid = None \<longleftrightarrow>
     (\<forall>b \<in> set (bookings db). \<not> (trip_id b = tid \<and> passenger_id b = pid \<and> active (status b)))"
  by (auto simp: existing_booking_def find_None_iff)

lemma one_active_handle_callback:
  assumes "one_active_per_passenger db"
  shows "one_active_per_passenger (new_db (handle_callback e actor tid n db))"
proof (cases "\<exists>bid. answer (handle_callback e actor tid n db) = BookingRequested bid")
  case True
  then obtain bid where "answer (handle_callback e actor tid n db) = BookingRequested bid" ..
  then show ?thesis
    using assms
    by (elim handle_callback_created)
       (auto simp: one_active_per_passenger_def existing_booking_None active_def)
next
  case False
  then show ?thesis using assms by (simp add: handle_callback_refused)
qed

lemma one_active_confirm_booking:
  assumes "wf_db db" and "one_active_per_passenger db"
  shows "one_active_per_passenger (new_db (confirm_booking e actor bid db))"
proof (cases "get_booking db bid")
  case None
  then show ?thesis using assms(2) by (simp add: confirm_booking_def)
next
  case (Some b)
  show ?thesis
  proof (cases "status b = PENDING")
    case True
    have up: "one_active_per_passenger (set_status bid CONFIRMED db)"
    proof (rule one_active_set_status [OF assms(2)], intro ballI impI)
      fix b' assume "b' \<in> set (bookings db)" "booking_id b' = bid"
      then have "b' = b" by (rule get_booking_unique [OF assms(1) Some])
      then show "active (status b')" using True by (simp add: active_def)
    qed
    have down: "one_active_per_passenger
                  (set_status bid EXPIRED (add_seats (trip_id b) (seats_booked b) db))"
      by (rule one_active_set_status) (simp_all add: one_active_add_seats assms(2) active_def)
    show ?thesis using True up down by (simp add: confirm_booking_def Some Let_def)
  next
    case False
    then show ?thesis using assms(2) by (simp add: confirm_booking_def Some)
  qed
qed

lemma one_active_release:
  assumes "one_active_per_passenger db" and "\<not> active s"
  shows "one_active_per_passenger (set_status bid s (add_seats tid n db))"
  by (rule one_active_set_status) (simp_all add: one_active_add_seats assms)

lemma one_active_reject_booking:
  assumes "one_active_per_passenger db"
  shows "one_active_per_passenger (new_db (guarded db (reject_booking e actor bid db)))"
  using assms one_active_release [OF assms, of REJECTED]
  by (simp add: reject_booking_def guarded_def active_def split: option.splits)

lemma one_active_confirm_cancel:
  assumes "one_active_per_passenger db"
  shows "one_active_per_passenger (new_db (guarded db (confirm_cancel e actor bid db)))"
  using assms one_active_release [OF assms, of CANCELLED]
  by (simp add: confirm_cancel_def guarded_def active_def split: option.splits)

lemma one_active_confirm_driver_cancel:
  assumes "one_active_per_passenger db"
  shows "one_active_per_passenger (new_db (confirm_driver_cancel e actor bid db))"
  using assms one_active_release [OF assms, of CANCELLED]
  by (simp add: confirm_driver_cancel_def active_def split: option.splits)

lemma one_active_cancel_trip:
  assumes "wf_db db" and "one_active_per_passenger db"
  shows "one_active_per_passenger (new_db (cancel_trip e actor tid db))"
proof (cases "\<exists>t. trips db tid = Some t \<and> is_active t \<and> driver_id t = actor")
  case True
  then obtain t where t: "trips db tid = Some t" "is_active t" "driver_id t = actor" by blast
  show ?thesis
    unfolding one_active_per_passenger_def cancel_trip_effect(2) [OF assms(1) t]
    using assms(2)
    by (intro one_active_relabel_down) (simp_all add: one_active_per_passenger_def active_def)
next
  case False
  then show ?thesis using assms(2) by (simp add: cancel_trip_refused)
qed

lemma one_active_sweep:
  assumes "wf_db db" and "one_active_per_passenger db"
  shows "one_active_per_passenger (swept_db (expire_candidates e hb db))"
  unfolding one_active_per_passenger_def sweep_bookings [OF assms(1)]
  using assms(2)
  by (intro one_active_relabel_down) (simp_all add: one_active_per_passenger_def active_def)

lemma one_active_handle_message_cancel_yes:
  assumes "one_active_per_passenger db"
  shows "one_active_per_passenger (new_db (handle_message_cancel_yes e actor bid db))"
  using assms one_active_release [OF assms, of CANCELLED]
  by (simp add: handle_message_cancel_yes_def active_def split: option.splits)

lemma one_active_exit_trip:
  assumes "one_active_per_passenger db"
  shows "one_active_per_passenger (new_db (exit_trip e actor bid db))"
proof -
  have "one_active_per_passenger (set_status bid CANCELLED db)"
    by (rule one_active_set_status [OF assms]) (simp add: active_def)
  then show ?thesis
    using assms one_active_release [OF assms, of CANCELLED]
    by (simp add: exit_trip_def active_def split: option.splits)
qed

lemma one_active_engine_step:
  assumes "wf_db db" and "one_active_per_passenger db"
  shows "one_active_per_passenger (engine_step e ev db)"
proof (cases ev)
  case (Callback actor c)
  then show ?thesis
    using assms
    by (cases c)
       (simp_all add: engine_step_def button_callback_def one_active_handle_callback
          one_active_confirm_booking one_active_reject_booking one_active_confirm_cancel
          one_active_confirm_driver_cancel one_active_cancel_trip one_active_exit_trip)
next
  case (TypedYes actor bid)
  then show ?thesis
    using assms by (simp add: engine_step_def one_active_handle_message_cancel_yes)
next
  case (ExpiryJob hb)
  then show ?thesis
    using assms
    by (cases rule: job_cases [of e hb db]) (simp_all add: engine_step_def one_active_sweep)
qed

lemma wf_run: "wf_db db \<Longrightarrow> wf_db (run h db)"
  by (induction h arbitrary: db) (simp_all add: wf_engine_step)

lemma one_active_run:
  "wf_db db \<Longrightarrow> one_active_per_passenger db \<Longrightarrow> one_active_per_passenger (run h db)"
  by (induction h arbitrary: db) (simp_all add: wf_engine_step one_active_engine_step)


lemmas scenario_defs =
  env0_def env_down_def env_late_def trip0_def db0_def booking0_def db1_def db2_def
  db5_def db_requested_def db_edited_def db_wide_def
  history_sweep_def history_cancel_def history_late_def

lemmas handler_defs =
  engine_step_def button_callback_def guarded_def handle_callback_def confirm_booking_def
  reject_booking_def confirm_cancel_def confirm_driver_cancel_def cancel_trip_def
  notify_passengers_trip_cancelled_def trip_cancel_one_def trip_cancel_notice_def
  expire_pending_bookings_job_def expire_one_def
  set_status_def add_seats_def get_booking_def booking_trip_def existing_booking_def
  next_booking_id_def active_def as_utc_datetime_def confirm_parse_time_def
  edit_seats_pick_def trip_has_confirmed_bookings_def
  handle_message_cancel_yes_def exit_trip_def expire_candidates_def
  ttl_minutes_def timedelta_minutes_def Let_def
















lemma at_most_one_with_key:
  "distinct (map key xs) \<Longrightarrow> length (filter (\<lambda>x. key x = k) xs) \<le> 1"
proof (induction xs)
  case Nil
  then show ?case by simp
next
  case (Cons a xs)
  show ?case
  proof (cases "key a = k")
    case True
    then have "\<forall>x \<in> set xs. key x \<noteq> k" using Cons.prems by (force simp: image_iff)
    then have "filter (\<lambda>x. key x = k) xs = []" by (simp add: filter_empty_conv)
    then show ?thesis using True by simp
  next
    case False
    then show ?thesis using Cons by simp
  qed
qed

lemma one_active_count:
  assumes "one_active_per_passenger db"
  shows "length (filter (\<lambda>b. trip_id b = tid \<and> passenger_id b = pid \<and> active (status b))
           (bookings db)) \<le> 1"
proof -
  have "length (filter (\<lambda>b. (trip_id b, passenger_id b) = (tid, pid))
          (filter (\<lambda>b. active (status b)) (bookings db))) \<le> 1"
    using assms unfolding one_active_per_passenger_def by (rule at_most_one_with_key)
  moreover have "filter (\<lambda>b. (trip_id b, passenger_id b) = (tid, pid))
          (filter (\<lambda>b. active (status b)) (bookings db))
      = filter (\<lambda>b. trip_id b = tid \<and> passenger_id b = pid \<and> active (status b)) (bookings db)"
    by (auto intro: filter_cong)
  ultimately show ?thesis by simp
qed

text \<open>
  The two passenger paths without a status test, on a booking that has already expired: the
  row is rewritten to CANCELLED and its two seats are added to the trip once more. A run of
  the expiry job over a PENDING row whose text does not load ends with the error.
\<close>

lemma unguarded_paths_on_expired_booking:
  "new_db (handle_message_cancel_yes env0 2 1 (db1 (Stamp 0) EXPIRED))
     = \<lparr>trips = [7 \<mapsto> trip0\<lparr>seats_available := 3\<rparr>], bookings = [booking0 (Stamp 0) CANCELLED]\<rparr>
   \<and> new_db (exit_trip env0 2 1 (db1 (Stamp 0) EXPIRED))
     = \<lparr>trips = [7 \<mapsto> trip0\<lparr>seats_available := 3\<rparr>], bookings = [booking0 (Stamp 0) CANCELLED]\<rparr>"
  by (simp add: scenario_defs handler_defs)

lemma job_fails_on_text_that_does_not_load:
  "expire_pending_bookings_job env0 True (db2 (Stamp 0) (Text ''soon'')) = Inl ValueError"
  by (simp add: scenario_defs handler_defs)

section \<open>Claims\<close>













text \<open>
  C5. The claim: the expiry job expires every PENDING booking for which now minus
  booking_time is at least the TTL, committing per booking. At exactly the TTL the booking
  stays PENDING (the comparison with the cutoff is strict), and a run that expires two
  bookings commits once.
\<close>

theorem sweep_keeps_booking_at_ttl:
  "utcnow env0 - 100000000 = timedelta_minutes (ttl_minutes env0)
   \<and> expire_pending_bookings_job env0 True (db1 (Stamp 100000000) PENDING)
     = Inr \<lparr>swept_db = db1 (Stamp 100000000) PENDING, expired = 0, commits = 0, notices = []\<rparr>
   \<and> map_sum id (\<lambda>out. (expired out, commits out))
        (expire_pending_bookings_job env0 True (db2 (Stamp 0) (Stamp 0)))
     = Inr (2, 1)"
  by (simp add: scenario_defs handler_defs)

text \<open>
  C5, as the code has it: a run of the expiry job whose query loads every PENDING row
  changes exactly the bookings that are PENDING, have a booking time, and whose age is
  strictly greater than the TTL: each becomes EXPIRED, its seats are added to its trip when
  the trip exists, and its passenger is notified when the job has a bot. Every other
  booking, among them a PENDING one whose booking time is NULL, is unchanged. The run
  commits once if it expired anything and not at all otherwise. What a run does when a
  PENDING row holds a text that does not load is not stated here.
\<close>

theorem expiry_sweep_effect:
  assumes "wf_db db"
    and "list_all (\<lambda>b. loads (booking_time b)) (filter (\<lambda>b. status b = PENDING) (bookings db))"
  shows "(\<exists>out. expire_pending_bookings_job e has_bot db = Inr out
          \<and> bookings (swept_db out)
              = map (\<lambda>b. if expires e b then b\<lparr>status := EXPIRED\<rparr> else b) (bookings db)
          \<and> trips (swept_db out) tid
              = map_option
                  (\<lambda>t. t\<lparr>seats_available := seats_available t
                           + sum_list (map seats_booked
                               (filter (\<lambda>c. expires e c \<and> trip_id c = tid) (bookings db)))\<rparr>)
                  (trips db tid)
          \<and> notices out
              = (if has_bot
                 then map (\<lambda>c. PassengerExpired (passenger_id c) (booking_id c))
                        (filter (expires e) (bookings db))
                 else [])
          \<and> expired out = length (filter (expires e) (bookings db))
          \<and> commits out = (if filter (expires e) (bookings db) = [] then 0 else 1))
       \<and> (loads (booking_time b)
            \<longrightarrow> expires e b
                = (status b = PENDING
                   \<and> (\<exists>t. booking_time b = Stamp t
                          \<and> timedelta_minutes (ttl_minutes e) < utcnow e - t)))"
proof -
  have x: "loads (booking_time b)
            \<longrightarrow> expires e b
                = (status b = PENDING
                   \<and> (\<exists>t. booking_time b = Stamp t
                          \<and> timedelta_minutes (ttl_minutes e) < utcnow e - t))"
    by (cases "booking_time b") (auto simp: expires_def overdue_def as_utc_datetime_def)
  have j: "expire_pending_bookings_job e has_bot db = Inr (expire_candidates e has_bot db)"
    using assms(2) by (simp add: expire_pending_bookings_job_def)
  show ?thesis
    using sweep_bookings [OF assms(1), of e has_bot] sweep_trips [of e has_bot db tid]
          sweep_notices [of e has_bot db] sweep_expired [of e has_bot db]
          sweep_commits [of e has_bot db] x j
    by blast
qed

theorem expiry_sweep_effect_witness:
  "wf_db (db2 (Stamp 0) NoTime)
   \<and> map (loads \<circ> booking_time) (bookings (db2 (Stamp 0) NoTime)) = [True, True]
   \<and> map_sum id
        (\<lambda>out. (map status (bookings (swept_db out)),
                map_option seats_available (trips (swept_db out) 7),
                notices out, expired out, commits out))
        (expire_pending_bookings_job env0 True (db2 (Stamp 0) NoTime))
      = Inr ([EXPIRED, PENDING], Some 2, [PassengerExpired 2 1], 1, 1)"
proof -
  let ?db = "db2 (Stamp 0) NoTime"
  have h1: "wf_db ?db" by (simp add: wf_db_def db2_def booking0_def)
  have l: "map (loads \<circ> booking_time) (bookings ?db) = [True, True]"
    by (simp add: db2_def booking0_def)
  have h2: "list_all (\<lambda>b. loads (booking_time b))
              (filter (\<lambda>b. status b = PENDING) (bookings ?db))"
    by (simp add: db2_def booking0_def)
  have x: "map (expires env0) (bookings ?db) = [True, False]"
    by (simp add: expires_def overdue_def as_utc_datetime_def ttl_minutes_def
          timedelta_minutes_def db2_def booking0_def env0_def)
  have f: "filter (expires env0) (bookings ?db) = [booking0 (Stamp 0) PENDING]"
    using x by (simp add: db2_def)
  have g: "filter (\<lambda>c. expires env0 c \<and> trip_id c = 7) (bookings ?db) = [booking0 (Stamp 0) PENDING]"
    using x by (simp add: db2_def booking0_def)
  from expiry_sweep_effect [OF h1 h2, of env0 True 7]
  obtain out where o: "expire_pending_bookings_job env0 True ?db = Inr out"
    and ob: "bookings (swept_db out)
              = map (\<lambda>b. if expires env0 b then b\<lparr>status := EXPIRED\<rparr> else b) (bookings ?db)"
    and ot: "trips (swept_db out) 7
              = map_option
                  (\<lambda>t. t\<lparr>seats_available := seats_available t
                           + sum_list (map seats_booked
                               (filter (\<lambda>c. expires env0 c \<and> trip_id c = 7) (bookings ?db)))\<rparr>)
                  (trips ?db 7)"
    and on: "notices out
              = map (\<lambda>c. PassengerExpired (passenger_id c) (booking_id c))
                  (filter (expires env0) (bookings ?db))"
    and oe: "expired out = length (filter (expires env0) (bookings ?db))"
    and oc: "commits out = (if filter (expires env0) (bookings ?db) = [] then 0 else 1)"
    by auto
  have b': "map status (bookings (swept_db out)) = [EXPIRED, PENDING]"
    using x unfolding ob by (simp add: db2_def booking0_def)
  have t': "map_option seats_available (trips (swept_db out) 7) = Some 2"
    unfolding ot g by (simp add: db2_def booking0_def trip0_def)
  have n': "notices out = [PassengerExpired 2 1]"
    unfolding on f by (simp add: booking0_def)
  have e': "expired out = 1" unfolding oe f by simp
  have c': "commits out = 1" unfolding oc f by simp
  show ?thesis using h1 l o b' t' n' e' c' by simp
qed

text \<open>
  C6. The claim: a failing notification never prevents the status and seat changes of the
  operation. In the trip cancellation the status update sits behind the send in the same
  try block: with a bot whose send fails, the trip is made inactive but its CONFIRMED
  booking stays CONFIRMED; with a bot that delivers, the booking becomes CANCELLED.
\<close>

theorem failed_send_blocks_trip_cancellation:
  "new_db (cancel_trip env_down 1 7 (db1 (Stamp 0) CONFIRMED))
     = \<lparr>trips = [7 \<mapsto> trip0\<lparr>seats_available := 1, is_active := False\<rparr>],
        bookings = [booking0 (Stamp 0) CONFIRMED]\<rparr>
   \<and> sent (cancel_trip env_down 1 7 (db1 (Stamp 0) CONFIRMED)) = [PassengerTripCancelled 2 1]
   \<and> bookings (new_db (cancel_trip env0 1 7 (db1 (Stamp 0) CONFIRMED)))
     = [booking0 (Stamp 0) CANCELLED]"
  by (simp add: scenario_defs handler_defs)

text \<open>
  C7. The claim: confirm and reject succeed only for the driver of the booking's trip.
  Neither handler looks at the caller: user 99, who is not driver 1 of trip 7, confirms the
  PENDING booking, and equally rejects it.
\<close>

theorem stranger_confirms_and_rejects:
  "map_option driver_id (trips (db1 (Stamp 999000000) PENDING) 7) = Some 1
   \<and> confirm_booking env0 99 1 (db1 (Stamp 999000000) PENDING)
     = \<lparr>new_db = \<lparr>trips = [7 \<mapsto> trip0\<lparr>seats_available := 1\<rparr>],
                  bookings = [booking0 (Stamp 999000000) CONFIRMED]\<rparr>,
        answer = BookingConfirmed,
        sent = [PassengerConfirmed 2 1]\<rparr>
   \<and> reject_booking env0 99 1 (db1 (Stamp 999000000) PENDING)
     = Inr \<lparr>new_db = \<lparr>trips = [7 \<mapsto> trip0\<lparr>seats_available := 3\<rparr>],
                      bookings = [booking0 (Stamp 999000000) REJECTED]\<rparr>,
            answer = BookingRejected,
            sent = [PassengerRejected 2 1]\<rparr>"
  by (simp add: scenario_defs handler_defs)

text \<open>
  C8. The claim: a requested seat count is accepted only if it is positive, at most 5 and at
  most the trip's free seats. The handler has no bound of 5: once trip 7 has eight free seats,
  a request of passenger 3 for six of them is accepted.
\<close>

theorem six_seats_accepted:
  "map_option seats_available (trips db5 7) = Some 5
   \<and> map_option seats_available (trips db_requested 7) = Some 2
   \<and> map_option seats_available (trips db_edited 7) = Some 5
   \<and> map_option seats_available (trips db_wide 7) = Some 8
   \<and> answer (handle_callback env0 3 7 6 db_wide) = BookingRequested 2
   \<and> map seats_booked (bookings (new_db (handle_callback env0 3 7 6 db_wide))) = [3, 6]
   \<and> map status (bookings (new_db (handle_callback env0 3 7 6 db_wide))) = [REJECTED, PENDING]
   \<and> map_option seats_available (trips (new_db (handle_callback env0 3 7 6 db_wide)) 7) = Some 2"
  by (simp add: scenario_defs handler_defs)

text \<open>
  C8, as the code has it: a request is accepted only if the count is at least 1 and at most
  the trip's free seats; a request that is not accepted creates no booking, changes no seat
  count and sends nothing, and a count out of that range on a trip that is otherwise
  bookable is answered as an unavailable seat count. The keyboard offers the counts from 1
  to the smaller of 5 and the free seats.
\<close>

theorem seat_count_checked:
  "((\<exists>k. answer (handle_callback e actor tid n db) = BookingRequested k)
      \<longrightarrow> (\<exists>t. trips db tid = Some t \<and> 1 \<le> n \<and> n \<le> seats_available t))
   \<and> (\<not> (\<exists>k. answer (handle_callback e actor tid n db) = BookingRequested k)
      \<longrightarrow> new_db (handle_callback e actor tid n db) = db
          \<and> sent (handle_callback e actor tid n db) = [])
   \<and> (trips db tid = Some t \<and> is_active t \<and> 0 < seats_available t \<and> driver_id t \<noteq> actor
        \<and> \<not> date t < now e \<and> (n < 1 \<or> seats_available t < n)
      \<longrightarrow> answer (handle_callback e actor tid n db) = SeatCountUnavailable)
   \<and> set (seat_quantity_buttons avail) = {k. 1 \<le> k \<and> k \<le> 5 \<and> k \<le> avail}"
proof (intro conjI impI)
  assume "\<exists>k. answer (handle_callback e actor tid n db) = BookingRequested k"
  then obtain k where "answer (handle_callback e actor tid n db) = BookingRequested k" ..
  then show "\<exists>t. trips db tid = Some t \<and> 1 \<le> n \<and> n \<le> seats_available t"
    by (elim handle_callback_created) simp
next
  assume a: "\<not> (\<exists>k. answer (handle_callback e actor tid n db) = BookingRequested k)"
  then show "new_db (handle_callback e actor tid n db) = db"
    by (simp add: handle_callback_refused)
  from a show "sent (handle_callback e actor tid n db) = []"
    by (simp add: handle_callback_refused)
next
  assume "trips db tid = Some t \<and> is_active t \<and> 0 < seats_available t \<and> driver_id t \<noteq> actor
        \<and> \<not> date t < now e \<and> (n < 1 \<or> seats_available t < n)"
  then show "answer (handle_callback e actor tid n db) = SeatCountUnavailable"
    by (auto simp: handle_callback_def)
next
  show "set (seat_quantity_buttons avail) = {k. 1 \<le> k \<and> k \<le> 5 \<and> k \<le> avail}"
    by (auto simp: seat_quantity_buttons_def)
qed

theorem seat_count_checked_witness:
  "answer (handle_callback env0 2 7 4 db0) = SeatCountUnavailable
   \<and> new_db (handle_callback env0 2 7 4 db0) = db0
   \<and> sent (handle_callback env0 2 7 4 db0) = []
   \<and> set (seat_quantity_buttons 8) = {1, 2, 3, 4, 5}"
proof -
  have t: "trips db0 7 = Some trip0 \<and> is_active trip0 \<and> 0 < seats_available trip0
        \<and> driver_id trip0 \<noteq> 2 \<and> \<not> date trip0 < now env0
        \<and> ((4::int) < 1 \<or> seats_available trip0 < 4)"
    by (simp add: db0_def trip0_def env0_def)
  have a: "answer (handle_callback env0 2 7 4 db0) = SeatCountUnavailable"
    using seat_count_checked [of env0 2 7 4 db0 trip0 8] t by blast
  then have n: "\<not> (\<exists>k. answer (handle_callback env0 2 7 4 db0) = BookingRequested k)"
    by simp
  have b: "new_db (handle_callback env0 2 7 4 db0) = db0
         \<and> sent (handle_callback env0 2 7 4 db0) = []"
    using seat_count_checked [of env0 2 7 4 db0 trip0 8] n by blast
  have "{k::int. 1 \<le> k \<and> k \<le> 5 \<and> k \<le> 8} = {1, 2, 3, 4, 5}" by auto
  then have c: "set (seat_quantity_buttons 8) = {1, 2, 3, 4, 5}"
    using seat_count_checked [of env0 2 7 4 db0 trip0 8] by simp
  show ?thesis using a b c by blast
qed

text \<open>
  C9. The claim: a request by a passenger who already holds an active booking on the trip is
  rejected with the duplicate-booking condition. The duplicate check is the last of the
  checks: on a trip with no free seat the same request is answered as trip unavailable.
\<close>

theorem duplicate_request_on_full_trip:
  "existing_booking (db2 (Stamp 0) (Stamp 0)) 7 2 = Some (booking0 (Stamp 0) PENDING)
   \<and> handle_callback env0 2 7 1 (db2 (Stamp 0) (Stamp 0))
     = \<lparr>new_db = db2 (Stamp 0) (Stamp 0), answer = TripUnavailable, sent = []\<rparr>"
  by (simp add: scenario_defs handler_defs)

text \<open>
  C9, as the code has it: along every history of engine events no trip has two active bookings
  of one passenger. A request by a passenger who already holds an active booking on the trip
  creates no record, changes nothing and sends nothing; it is answered with the
  duplicate-booking alert whenever the trip is bookable for the passenger and the count is in
  range, and with the alert of the earlier failing check otherwise.
\<close>

theorem one_active_booking_kept:
  assumes "wf_db db" and "one_active_per_passenger db"
  shows "one_active_per_passenger (run h db)
       \<and> length (filter (\<lambda>b. trip_id b = tid \<and> passenger_id b = actor \<and> active (status b))
           (bookings (run h db))) \<le> 1
       \<and> (existing_booking db tid actor \<noteq> None
            \<longrightarrow> new_db (handle_callback e actor tid n db) = db
                \<and> sent (handle_callback e actor tid n db) = []
                \<and> answer (handle_callback e actor tid n db)
                    \<in> {TripUnavailable, OwnTrip, TripInPast, SeatCountUnavailable, AlreadyBooked})
       \<and> (existing_booking db tid actor \<noteq> None
            \<and> trips db tid = Some t \<and> is_active t \<and> 0 < seats_available t
            \<and> driver_id t \<noteq> actor \<and> \<not> date t < now e
            \<and> 1 \<le> n \<and> n \<le> seats_available t
            \<longrightarrow> answer (handle_callback e actor tid n db) = AlreadyBooked)"
proof -
  have inv: "one_active_per_passenger (run h db)"
    using assms by (rule one_active_run)
  have dup: "existing_booking db tid actor \<noteq> None
            \<longrightarrow> new_db (handle_callback e actor tid n db) = db
                \<and> sent (handle_callback e actor tid n db) = []
                \<and> answer (handle_callback e actor tid n db)
                    \<in> {TripUnavailable, OwnTrip, TripInPast, SeatCountUnavailable, AlreadyBooked}"
    by (auto simp: handle_callback_def split: option.splits)
  have ans: "existing_booking db tid actor \<noteq> None
            \<and> trips db tid = Some t \<and> is_active t \<and> 0 < seats_available t
            \<and> driver_id t \<noteq> actor \<and> \<not> date t < now e
            \<and> 1 \<le> n \<and> n \<le> seats_available t
            \<longrightarrow> answer (handle_callback e actor tid n db) = AlreadyBooked"
    by (auto simp: handle_callback_def)
  show ?thesis using inv one_active_count [OF inv, of tid actor] dup ans by blast
qed

theorem one_active_booking_kept_witness:
  "wf_db (db1 (Stamp 0) PENDING)
   \<and> one_active_per_passenger (db1 (Stamp 0) PENDING)
   \<and> existing_booking (db1 (Stamp 0) PENDING) 7 2 = Some (booking0 (Stamp 0) PENDING)
   \<and> answer (handle_callback env0 2 7 1 (db1 (Stamp 0) PENDING)) = AlreadyBooked
   \<and> new_db (handle_callback env0 2 7 1 (db1 (Stamp 0) PENDING)) = db1 (Stamp 0) PENDING
   \<and> sent (handle_callback env0 2 7 1 (db1 (Stamp 0) PENDING)) = []
   \<and> one_active_per_passenger
        (run [(env0, Callback 2 (BookQty 7 1)), (env0, Callback 3 (BookQty 7 1))]
           (db1 (Stamp 0) PENDING))
   \<and> length (filter (\<lambda>b. trip_id b = 7 \<and> passenger_id b = 2 \<and> active (status b))
        (bookings (run [(env0, Callback 2 (BookQty 7 1)), (env0, Callback 3 (BookQty 7 1))]
           (db1 (Stamp 0) PENDING)))) \<le> 1"
proof -
  let ?db = "db1 (Stamp 0) PENDING"
  let ?t = "trip0\<lparr>seats_available := 1\<rparr>"
  let ?h = "[(env0, Callback 2 (BookQty 7 1)), (env0, Callback 3 (BookQty 7 1))]"
  have h1: "wf_db ?db" by (simp add: wf_db_def db1_def)
  have h2: "one_active_per_passenger ?db"
    by (simp add: one_active_per_passenger_def db1_def)
  have x: "existing_booking ?db 7 2 = Some (booking0 (Stamp 0) PENDING)"
    by (simp add: existing_booking_def db1_def booking0_def active_def)
  have pre: "existing_booking ?db 7 2 \<noteq> None
            \<and> trips ?db 7 = Some ?t \<and> is_active ?t \<and> 0 < seats_available ?t
            \<and> driver_id ?t \<noteq> 2 \<and> \<not> date ?t < now env0
            \<and> (1::int) \<le> 1 \<and> 1 \<le> seats_available ?t"
    using x by (simp add: db1_def trip0_def env0_def)
  show ?thesis
    using one_active_booking_kept [OF h1 h2, of ?h 7 2 env0 1 ?t] h1 h2 x pre
    by blast
qed

text \<open>
  C10. When the passenger's cancellation confirmation names a booking id that is not stored,
  the handler reads the status of the absent record before any existence check: the request
  fails with an error, not with a not-found answer, and neither trips nor bookings change.
\<close>

theorem confirm_cancel_missing_booking:
  assumes "get_booking db bid = None"
  shows "confirm_cancel e actor bid db = Inl AttributeError
       \<and> answer (guarded db (confirm_cancel e actor bid db)) = ErrorOccurred
       \<and> answer (guarded db (confirm_cancel e actor bid db)) \<noteq> BookingNotFound
       \<and> new_db (guarded db (confirm_cancel e actor bid db)) = db"
  using assms by (simp add: confirm_cancel_def guarded_def)

theorem confirm_cancel_missing_booking_witness:
  "get_booking db0 5 = None
   \<and> confirm_cancel env0 2 5 db0 = Inl AttributeError
   \<and> answer (guarded db0 (confirm_cancel env0 2 5 db0)) = ErrorOccurred
   \<and> answer (guarded db0 (confirm_cancel env0 2 5 db0)) \<noteq> BookingNotFound
   \<and> new_db (guarded db0 (confirm_cancel env0 2 5 db0)) = db0"
proof -
  have h: "get_booking db0 5 = None" by (simp add: get_booking_def db0_def)
  show ?thesis using h confirm_cancel_missing_booking [OF h, of env0 2] by blast
qed

end
